theory Spec2Isabelle
  imports Complex_Main "HOL-Library.Sublist"
begin

section \<open>Python primitives used by the SDK\<close>

text \<open>
  Strings are lists of characters.  \<open>str.lower()\<close> is modelled on the ASCII letters
  (other characters are left as they are); none of the results below depends on which
  characters are folded.  \<open>q in s\<close> on strings is the substring test.
\<close>

definition lower_char :: "char \<Rightarrow> char" where
  "lower_char c =
     (if (65::nat) \<le> of_char c \<and> of_char c \<le> (90::nat)
      then char_of (of_char c + (32::nat)) else c)"

definition lower :: "string \<Rightarrow> string" where
  "lower s = map lower_char s"

fun str_in :: "string \<Rightarrow> string \<Rightarrow> bool" where
  "str_in q [] = (q = [])"
| "str_in q (c # cs) = (prefix q (c # cs) \<or> str_in q cs)"

definition digit_char :: "nat \<Rightarrow> char" where
  "digit_char d = char_of (48 + d)"

fun str_nat :: "nat \<Rightarrow> string" where
  "str_nat n = (if n < 10 then [digit_char n] else str_nat (n div 10) @ [digit_char (n mod 10)])"

declare str_nat.simps [simp del]

fun join :: "string \<Rightarrow> string list \<Rightarrow> string" where
  "join sep [] = []"
| "join sep [x] = x"
| "join sep (x # y # ys) = x @ sep @ join sep (y # ys)"

definition nl :: string where
  "nl = [CHR 0x0A]"

definition apos :: string where
  "apos = [CHR 0x27]"

text \<open>The exceptions the modelled code raises, each with its message where it has one.\<close>

datatype py_error =
    ValueError string
  | PyException string
  | AttributeError
  | TypeError
  | IndexError
  | OSError
  | JSONDecodeError
  | OverflowError

section \<open>Data model (models.py)\<close>

text \<open>
  Floats are modelled as reals: the engine only compares them, and on finite floats the
  comparison is the one of the reals.  A \<open>datetime\<close> is a point on a time line.
\<close>

type_synonym datetime = int

record market_outcome =
  outcome_id :: string
  label :: string
  price :: real
  price_change_24h :: "real option"

record unified_market =
  market_id :: string
  title :: string
  outcomes :: "market_outcome list"
  volume_24h :: real
  liquidity :: real
  url :: string
  description :: "string option"
  resolution_date :: "datetime option"
  volume :: "real option"
  open_interest :: "real option"
  image :: "string option"
  category :: "string option"
  tags :: "string list option"
  yes :: "market_outcome option"
  no :: "market_outcome option"
  up :: "market_outcome option"
  down :: "market_outcome option"

text \<open>The filter criteria: \<open>TypedDict\<close>s with \<open>total=False\<close>, so every key may be absent.\<close>

record min_max =
  mm_min :: "real option"
  mm_max :: "real option"

record date_range =
  before :: "datetime option"
  after :: "datetime option"

datatype outcome_type = Yes | No | Up | Down

record price_filter =
  pf_outcome :: "outcome_type option"
  pf_min :: "real option"
  pf_max :: "real option"

record market_filter_criteria =
  c_text :: "string option"
  c_search_in :: "string list option"
  c_volume_24h :: "min_max option"
  c_volume :: "min_max option"
  c_liquidity :: "min_max option"
  c_open_interest :: "min_max option"
  c_resolution_date :: "date_range option"
  c_category :: "string option"
  c_tags :: "string list option"
  c_price :: "price_filter option"
  c_price_change_24h :: "price_filter option"

datatype criteria =
    Predicate "unified_market \<Rightarrow> bool"
  | Str string
  | Params market_filter_criteria

section \<open>Field tests shared by \<open>match\<close> and \<open>filter_markets\<close>\<close>

text \<open>
  \<open>m.title and q in m.title.lower()\<close>: an empty title is falsy.  The optional fields are
  falsy when they are \<open>None\<close> or empty.
\<close>

definition title_has :: "string \<Rightarrow> unified_market \<Rightarrow> bool" where
  "title_has lower_query m = (title m \<noteq> [] \<and> str_in lower_query (lower (title m)))"

definition description_has :: "string \<Rightarrow> unified_market \<Rightarrow> bool" where
  "description_has lower_query m =
     (case description m of None \<Rightarrow> False
      | Some d \<Rightarrow> d \<noteq> [] \<and> str_in lower_query (lower d))"

definition category_has :: "string \<Rightarrow> unified_market \<Rightarrow> bool" where
  "category_has lower_query m =
     (case category m of None \<Rightarrow> False
      | Some c \<Rightarrow> c \<noteq> [] \<and> str_in lower_query (lower c))"

definition tags_have :: "string \<Rightarrow> unified_market \<Rightarrow> bool" where
  "tags_have lower_query m =
     (case tags m of None \<Rightarrow> False
      | Some ts \<Rightarrow> ts \<noteq> [] \<and> list_ex (\<lambda>t. str_in lower_query (lower t)) ts)"

definition outcomes_have :: "string \<Rightarrow> unified_market \<Rightarrow> bool" where
  "outcomes_have lower_query m =
     (outcomes m \<noteq> [] \<and> list_ex (\<lambda>oc. str_in lower_query (lower (label oc))) (outcomes m))"

section \<open>\<open>MarketList.match\<close> (models.py)\<close>

text \<open>One pass of the body of the inner loop: does this field make the record a match?\<close>

definition field_hit :: "string \<Rightarrow> string \<Rightarrow> unified_market \<Rightarrow> bool" where
  "field_hit lower_query field m =
     (if field = ''title'' \<and> title_has lower_query m then True
      else if field = ''description'' \<and> description_has lower_query m then True
      else if field = ''category'' \<and> category_has lower_query m then True
      else if field = ''tags'' \<and> tags_have lower_query m then True
      else if field = ''outcomes'' \<and> outcomes_have lower_query m then True
      else False)"

text \<open>The inner loop over \<open>search_in\<close>, leaving at the first hit (\<open>break\<close>).\<close>

fun scan_fields :: "string \<Rightarrow> string list \<Rightarrow> unified_market \<Rightarrow> bool" where
  "scan_fields lower_query [] m = False"
| "scan_fields lower_query (field # rest) m =
     (if field_hit lower_query field m then True else scan_fields lower_query rest m)"

text \<open>The outer loop over the list, appending each match in order.\<close>

fun collect_matches ::
  "string \<Rightarrow> string list \<Rightarrow> unified_market list \<Rightarrow> unified_market list \<Rightarrow> unified_market list"
where
  "collect_matches lower_query search_in [] matches = matches"
| "collect_matches lower_query search_in (m # rest) matches =
     collect_matches lower_query search_in rest
       (if scan_fields lower_query search_in m then matches @ [m] else matches)"

definition display_title :: "string \<Rightarrow> string" where
  "display_title t = take 70 t @ (if length t > 70 then ''...'' else [])"

fun numbered_titles :: "nat \<Rightarrow> unified_market list \<Rightarrow> string list" where
  "numbered_titles i [] = []"
| "numbered_titles i (m # ms) =
     (str_nat (i + 1) @ ''. '' @ display_title (title m)) # numbered_titles (i + 1) ms"

definition not_found_message :: "string \<Rightarrow> string" where
  "not_found_message query = ''No markets matching '' @ apos @ query @ apos"

definition ambiguous_message :: "string \<Rightarrow> unified_market list \<Rightarrow> string" where
  "ambiguous_message query matches =
     ''Multiple markets matching '' @ apos @ query @ apos @ '' ('' @ str_nat (length matches)
       @ '' matches):'' @ nl @ ''  '' @ join (nl @ ''  '') (numbered_titles 0 matches)
       @ nl @ nl @ ''Please refine your search.''"

definition MarketList_match ::
  "unified_market list \<Rightarrow> string \<Rightarrow> string list option \<Rightarrow> py_error + unified_market"
where
  "MarketList_match self query search_in_arg =
     (let search_in = (case search_in_arg of None \<Rightarrow> [''title''] | Some fs \<Rightarrow> fs);
          lower_query = lower query;
          matches = collect_matches lower_query search_in self []
      in if length matches = 0 then Inl (ValueError (not_found_message query))
         else if length matches > 1 then Inl (ValueError (ambiguous_message query matches))
         else (case matches of m # _ \<Rightarrow> Inr m | [] \<Rightarrow> Inl IndexError))"

section \<open>\<open>Exchange.filter_markets\<close> (client.py)\<close>

text \<open>\<open>if "min" in f and val < f["min"]: continue\<close>, then the same for \<open>max\<close>.\<close>

definition below_min :: "real option \<Rightarrow> real \<Rightarrow> bool" where
  "below_min lo val = (case lo of None \<Rightarrow> False | Some b \<Rightarrow> val < b)"

definition above_max :: "real option \<Rightarrow> real \<Rightarrow> bool" where
  "above_max hi val = (case hi of None \<Rightarrow> False | Some b \<Rightarrow> val > b)"

definition range_rejects :: "min_max \<Rightarrow> real \<Rightarrow> bool" where
  "range_rejects f val = (below_min (mm_min f) val \<or> above_max (mm_max f) val)"

text \<open>\<open>market.volume or 0\<close>: an absent (or zero) value counts as 0.\<close>

definition or_zero :: "real option \<Rightarrow> real" where
  "or_zero v = (case v of None \<Rightarrow> 0 | Some x \<Rightarrow> x)"

definition text_ok :: "market_filter_criteria \<Rightarrow> unified_market \<Rightarrow> bool" where
  "text_ok params market =
     (case c_text params of None \<Rightarrow> True
      | Some t \<Rightarrow>
         (let lower_query = lower t;
              search_in = (case c_search_in params of None \<Rightarrow> [''title''] | Some fs \<Rightarrow> fs)
          in if ''title'' \<in> set search_in \<and> title_has lower_query market then True
             else if ''description'' \<in> set search_in \<and> description_has lower_query market then True
             else if ''category'' \<in> set search_in \<and> category_has lower_query market then True
             else if ''tags'' \<in> set search_in \<and> tags_have lower_query market then True
             else if ''outcomes'' \<in> set search_in \<and> outcomes_have lower_query market then True
             else False))"

definition category_ok :: "market_filter_criteria \<Rightarrow> unified_market \<Rightarrow> bool" where
  "category_ok params market =
     (case c_category params of None \<Rightarrow> True | Some c \<Rightarrow> category market = Some c)"

definition tags_ok :: "market_filter_criteria \<Rightarrow> unified_market \<Rightarrow> bool" where
  "tags_ok params market =
     (case c_tags params of None \<Rightarrow> True
      | Some qs \<Rightarrow>
         (if qs = [] then True
          else (case tags market of None \<Rightarrow> False
                | Some ts \<Rightarrow>
                   (if ts = [] then False
                    else (let query_tags = map lower qs; market_tags = map lower ts
                          in list_ex (\<lambda>t. t \<in> set market_tags) query_tags)))))"

definition range_ok :: "min_max option \<Rightarrow> real \<Rightarrow> bool" where
  "range_ok key val = (case key of None \<Rightarrow> True | Some f \<Rightarrow> \<not> range_rejects f val)"

definition resolution_date_ok :: "market_filter_criteria \<Rightarrow> unified_market \<Rightarrow> bool" where
  "resolution_date_ok params market =
     (case c_resolution_date params of None \<Rightarrow> True
      | Some f \<Rightarrow>
         (case resolution_date market of None \<Rightarrow> False
          | Some val \<Rightarrow>
             (if (case before f of None \<Rightarrow> False | Some b \<Rightarrow> val \<ge> b) then False
              else if (case after f of None \<Rightarrow> False | Some a \<Rightarrow> val \<le> a) then False
              else True)))"

text \<open>\<open>getattr(market, outcome_key, None)\<close> for the four outcome selectors.\<close>

fun getattr_outcome :: "unified_market \<Rightarrow> outcome_type \<Rightarrow> market_outcome option" where
  "getattr_outcome market Yes = yes market"
| "getattr_outcome market No = no market"
| "getattr_outcome market Up = up market"
| "getattr_outcome market Down = down market"

definition price_ok :: "market_filter_criteria \<Rightarrow> unified_market \<Rightarrow> bool" where
  "price_ok params market =
     (case c_price params of None \<Rightarrow> True
      | Some f \<Rightarrow>
         (case pf_outcome f of None \<Rightarrow> True
          | Some outcome_key \<Rightarrow>
             (case getattr_outcome market outcome_key of None \<Rightarrow> False
              | Some outcome \<Rightarrow>
                 (if below_min (pf_min f) (price outcome) then False
                  else if above_max (pf_max f) (price outcome) then False
                  else True))))"

definition price_change_24h_ok :: "market_filter_criteria \<Rightarrow> unified_market \<Rightarrow> bool" where
  "price_change_24h_ok params market =
     (case c_price_change_24h params of None \<Rightarrow> True
      | Some f \<Rightarrow>
         (case pf_outcome f of None \<Rightarrow> True
          | Some outcome_key \<Rightarrow>
             (case getattr_outcome market outcome_key of None \<Rightarrow> False
              | Some outcome \<Rightarrow>
                 (case price_change_24h outcome of None \<Rightarrow> False
                  | Some change \<Rightarrow>
                     (if below_min (pf_min f) change then False
                      else if above_max (pf_max f) change then False
                      else True)))))"

text \<open>
  The body of the loop for one market: each block either leaves with \<open>continue\<close>
  (the market is dropped) or falls through to the next; the market is appended at the end.
\<close>

definition market_passes :: "market_filter_criteria \<Rightarrow> unified_market \<Rightarrow> bool" where
  "market_passes params market =
     (if \<not> text_ok params market then False
      else if \<not> category_ok params market then False
      else if \<not> tags_ok params market then False
      else if \<not> range_ok (c_volume_24h params) (volume_24h market) then False
      else if \<not> range_ok (c_volume params) (or_zero (volume market)) then False
      else if \<not> range_ok (c_liquidity params) (liquidity market) then False
      else if \<not> range_ok (c_open_interest params) (or_zero (open_interest market)) then False
      else if \<not> resolution_date_ok params market then False
      else if \<not> price_ok params market then False
      else if \<not> price_change_24h_ok params market then False
      else True)"

fun filter_loop ::
  "market_filter_criteria \<Rightarrow> unified_market list \<Rightarrow> unified_market list \<Rightarrow> unified_market list"
where
  "filter_loop params [] results = results"
| "filter_loop params (market # rest) results =
     filter_loop params rest (if market_passes params market then results @ [market] else results)"

definition filter_markets :: "unified_market list \<Rightarrow> criteria \<Rightarrow> unified_market list" where
  "filter_markets markets crit =
     (case crit of
        Predicate p \<Rightarrow> filter p markets
      | Str s \<Rightarrow> (let lower_query = lower s in filter (\<lambda>m. title_has lower_query m) markets)
      | Params params \<Rightarrow> filter_loop params markets [])"

section \<open>The sidecar supervisor (server_manager.py)\<close>

text \<open>
  What \<open>json.loads\<close> returns: \<open>None\<close>, a bool, a number, a string, a list or a dict.
  \<open>JNull\<close> is Python's \<open>None\<close>.
\<close>

datatype json =
    JNull
  | JBool bool
  | JInt int
  | JFloat real
  | JStr string
  | JList "json list"
  | JDict "(string \<times> json) list"

text \<open>Truthiness, as \<open>not pid\<close> reads it.\<close>

fun truthy :: "json \<Rightarrow> bool" where
  "truthy JNull = False"
| "truthy (JBool b) = b"
| "truthy (JInt n) = (n \<noteq> 0)"
| "truthy (JFloat x) = (x \<noteq> 0)"
| "truthy (JStr s) = (s \<noteq> [])"
| "truthy (JList xs) = (xs \<noteq> [])"
| "truthy (JDict kvs) = (kvs \<noteq> [])"

text \<open>\<open>d.get(k)\<close> and \<open>d.get(k, default)\<close> on a dict.\<close>

definition dict_get :: "(string \<times> json) list \<Rightarrow> string \<Rightarrow> json" where
  "dict_get d k = (case map_of d k of None \<Rightarrow> JNull | Some v \<Rightarrow> v)"

definition dict_get_default :: "(string \<times> json) list \<Rightarrow> string \<Rightarrow> json \<Rightarrow> json" where
  "dict_get_default d k dflt = (case map_of d k of None \<Rightarrow> dflt | Some v \<Rightarrow> v)"

text \<open>
  The lock file: it does not exist; it exists and \<open>read_text\<close> raises \<open>OSError\<close>; or it
  is read, and then \<open>json.loads\<close> either raises \<open>JSONDecodeError\<close> or returns a value.
\<close>

datatype file_content = Unparseable | Parsed json

datatype lock_file = Absent | Unreadable | Readable file_content

text \<open>The answer of \<open>urlopen\<close>: an error, or a status with the body as \<open>json.loads\<close> sees it.\<close>

datatype http_result = ConnectionFailed | Response nat file_content

text \<open>What \<open>subprocess.run\<close> does: the process ends, the timeout expires, or it raises.\<close>

datatype run_outcome =
    Completed int string string
  | RunTimeout
  | RunRaised string

record run_result =
  r_outcome :: run_outcome
  r_elapsed :: nat
  r_lock_after :: lock_file
  r_procs_after :: "int list"

datatype event =
    HealthGet json nat
  | Launch "string list"
  | Sleep nat

text \<open>
  The world the supervisor acts on: the lock file and whether its directory allows the
  file to be removed, the ids of the processes that a signal reaches, whether a signal sent
  to a target of 0 or below (a process group, or every process) reaches anything, a clock in
  milliseconds, the health endpoint (what a request to a port returns at a time), where the
  launcher is found, what running it does, and the trace of the supervisor's requests,
  launches and sleeps.  Requests take no time in the model.
\<close>

record world =
  lock :: lock_file
  lock_dir_writable :: bool
  procs :: "int list"
  pgroup_reached :: "int \<Rightarrow> bool"
  clock :: nat
  endpoint :: "nat \<Rightarrow> json \<Rightarrow> http_result"
  local_launcher_exists :: bool
  local_launcher :: string
  which_launcher :: "string option"
  x_ok :: "string \<Rightarrow> bool"
  subprocess_run :: "string list \<Rightarrow> run_result"
  trace :: "event list"

definition DEFAULT_PORT :: int where
  "DEFAULT_PORT = 3847"

definition HEALTH_CHECK_TIMEOUT :: nat where
  "HEALTH_CHECK_TIMEOUT = 10000"

definition HEALTH_CHECK_INTERVAL :: nat where
  "HEALTH_CHECK_INTERVAL = 100"

text \<open>
  \<open>os.kill(pid, 0)\<close>: the pid must be an integer (a bool is one), else \<open>TypeError\<close>, and
  must fit a C \<open>int\<close>, else \<open>OverflowError\<close>.  A positive pid names one process; a pid of
  0 or below names a process group or every process.  \<open>OSError\<close> when nothing is reached.
\<close>

definition C_INT_MIN :: int where
  "C_INT_MIN = - 2147483648"

definition C_INT_MAX :: int where
  "C_INT_MAX = 2147483647"

definition kill_int :: "world \<Rightarrow> int \<Rightarrow> py_error + unit" where
  "kill_int w n =
     (if n < C_INT_MIN \<or> C_INT_MAX < n then Inl OverflowError
      else if 0 < n then (if n \<in> set (procs w) then Inr () else Inl OSError)
      else (if pgroup_reached w n then Inr () else Inl OSError))"

fun os_kill_0 :: "world \<Rightarrow> json \<Rightarrow> py_error + unit" where
  "os_kill_0 w (JInt n) = kill_int w n"
| "os_kill_0 w (JBool b) = kill_int w (if b then 1 else 0)"
| "os_kill_0 w _ = Inl TypeError"

definition is_process_running :: "world \<Rightarrow> json \<Rightarrow> py_error + bool" where
  "is_process_running w pid =
     (case os_kill_0 w pid of
        Inr _ \<Rightarrow> Inr True
      | Inl OSError \<Rightarrow> Inr False
      | Inl e \<Rightarrow> Inl e)"

text \<open>\<open>Path.unlink\<close>, and \<open>_remove_stale_lock\<close>, which swallows its failure.\<close>

definition unlink :: "world \<Rightarrow> py_error + world" where
  "unlink w =
     (if lock w = Absent then Inl OSError
      else if \<not> lock_dir_writable w then Inl OSError
      else Inr (w\<lparr>lock := Absent\<rparr>))"

definition remove_stale_lock :: "world \<Rightarrow> world" where
  "remove_stale_lock w = (case unlink w of Inr w' \<Rightarrow> w' | Inl _ \<Rightarrow> w)"

text \<open>\<open>_check_health\<close>: every exception inside is caught and gives \<open>False\<close>.\<close>

definition check_health :: "json \<Rightarrow> nat \<Rightarrow> world \<Rightarrow> bool \<times> world" where
  "check_health port timeout w =
     (let w1 = w\<lparr>trace := trace w @ [HealthGet port timeout]\<rparr>
      in (case endpoint w (clock w) port of
            Response status (Parsed (JDict data)) \<Rightarrow>
              (if status = 200 then (dict_get data ''status'' = JStr ''ok'', w1) else (False, w1))
          | _ \<Rightarrow> (False, w1)))"

text \<open>The body of the \<open>try\<close> in \<open>is_server_alive\<close>, then its \<open>except\<close> clause.\<close>

definition is_server_alive_body :: "world \<Rightarrow> (py_error + bool) \<times> world" where
  "is_server_alive_body w =
     (case lock w of
        Absent \<Rightarrow> (Inl OSError, w)
      | Unreadable \<Rightarrow> (Inl OSError, w)
      | Readable Unparseable \<Rightarrow> (Inl JSONDecodeError, w)
      | Readable (Parsed lock_data) \<Rightarrow>
         (case lock_data of
            JDict d \<Rightarrow>
              (let pid = dict_get d ''pid'';
                   port = dict_get_default d ''port'' (JInt DEFAULT_PORT)
               in if \<not> truthy pid then (Inr False, w)
                  else (case is_process_running w pid of
                          Inl e \<Rightarrow> (Inl e, w)
                        | Inr False \<Rightarrow> (Inr False, remove_stale_lock w)
                        | Inr True \<Rightarrow>
                            (case check_health port 1 w of (ok, w1) \<Rightarrow> (Inr ok, w1))))
          | _ \<Rightarrow> (Inl AttributeError, w)))"

definition is_server_alive :: "world \<Rightarrow> (py_error + bool) \<times> world" where
  "is_server_alive w =
     (if lock w = Absent then (Inr False, w)
      else (case is_server_alive_body w of
              (Inl JSONDecodeError, w1) \<Rightarrow> (Inr False, w1)
            | (Inl OSError, w1) \<Rightarrow> (Inr False, w1)
            | r \<Rightarrow> r))"

text \<open>\<open>_start_server_via_launcher\<close>.\<close>

definition launcher_not_found_message :: string where
  "launcher_not_found_message =
     ''pmxt-ensure-server not found.'' @ nl @ ''Local search failed and not in PATH.'' @ nl
       @ ''Please install the server: npm install -g pmxtjs''"

datatype launch_error = LaunchTimeout | LaunchException string

definition launcher_cmd :: "world \<Rightarrow> string \<Rightarrow> string list" where
  "launcher_cmd w launcher =
     (if suffix ''.js'' launcher \<or> \<not> x_ok w launcher then [''node'', launcher] else [launcher])"

definition run_launcher :: "string \<Rightarrow> world \<Rightarrow> (launch_error + unit) \<times> world" where
  "run_launcher launcher w =
     (let cmd = launcher_cmd w launcher;
          result = subprocess_run w cmd;
          w1 = w\<lparr>trace := trace w @ [Launch cmd], clock := clock w + r_elapsed result,
                 lock := r_lock_after result, procs := r_procs_after result\<rparr>
      in (case r_outcome result of
            Completed returncode out err \<Rightarrow>
              (if returncode \<noteq> 0
               then (Inl (LaunchException
                       (''Failed to start server: '' @ (if err \<noteq> [] then err else out))), w1)
               else (Inr (), w1))
          | RunTimeout \<Rightarrow> (Inl LaunchTimeout, w1)
          | RunRaised msg \<Rightarrow> (Inl (LaunchException msg), w1)))"

definition find_launcher :: "world \<Rightarrow> string option" where
  "find_launcher w =
     (if local_launcher_exists w then Some (local_launcher w) else which_launcher w)"

definition start_server_via_launcher :: "world \<Rightarrow> (py_error + unit) \<times> world" where
  "start_server_via_launcher w =
     (let launcher = find_launcher w
      in (case launcher of
            None \<Rightarrow> (Inl (PyException launcher_not_found_message), w)
          | Some l \<Rightarrow>
             (if l = [] then (Inl (PyException launcher_not_found_message), w)
              else (case run_launcher l w of
                      (Inl LaunchTimeout, w1) \<Rightarrow> (Inl (PyException ''Server startup timeout''), w1)
                    | (Inl (LaunchException msg), w1) \<Rightarrow>
                        (Inl (PyException (''Failed to start server: '' @ msg)), w1)
                    | (Inr u, w1) \<Rightarrow> (Inr (), w1)))))"

text \<open>\<open>_wait_for_health\<close>: poll, sleep, until healthy or the budget is spent.\<close>

definition sleep :: "nat \<Rightarrow> world \<Rightarrow> world" where
  "sleep d w = w\<lparr>clock := clock w + d, trace := trace w @ [Sleep d]\<rparr>"

function wait_loop :: "int \<Rightarrow> nat \<Rightarrow> world \<Rightarrow> (py_error + unit) \<times> world" where
  "wait_loop self_port start_time w =
     (if clock w - start_time < HEALTH_CHECK_TIMEOUT
      then (if fst (check_health (JInt self_port) 2 w)
            then (Inr (), snd (check_health (JInt self_port) 2 w))
            else wait_loop self_port start_time
                   (sleep HEALTH_CHECK_INTERVAL (snd (check_health (JInt self_port) 2 w))))
      else (Inl (PyException ''Server failed to become healthy within 10s''), w))"
  by pat_completeness auto
termination
  by (relation "measure (\<lambda>(p, s, w). s + HEALTH_CHECK_TIMEOUT - clock w)")
     (auto simp: check_health_def sleep_def HEALTH_CHECK_INTERVAL_def HEALTH_CHECK_TIMEOUT_def
        Let_def split: http_result.splits file_content.splits json.splits)

declare wait_loop.simps [simp del]

definition wait_for_health :: "int \<Rightarrow> world \<Rightarrow> (py_error + unit) \<times> world" where
  "wait_for_health self_port w = wait_loop self_port (clock w) w"

definition ensure_server_running :: "int \<Rightarrow> world \<Rightarrow> (py_error + unit) \<times> world" where
  "ensure_server_running self_port w =
     (case is_server_alive w of
        (Inl e, w1) \<Rightarrow> (Inl e, w1)
      | (Inr True, w1) \<Rightarrow> (Inr (), w1)
      | (Inr False, w1) \<Rightarrow>
          (case start_server_via_launcher w1 of
             (Inl e, w2) \<Rightarrow> (Inl e, w2)
           | (Inr u, w2) \<Rightarrow> wait_for_health self_port w2))"


section \<open>Notions used to state the properties\<close>

text \<open>
  The empty criteria object \<open>{}\<close>, the three markets of the specification's scenarios
  (only title and 24-hour volume are given there; every optional field is absent), the
  default of \<open>search_in\<close>, and the records that contain a query in a scanned field.
\<close>

definition empty_criteria :: market_filter_criteria where
  "empty_criteria = \<lparr>c_text = None, c_search_in = None, c_volume_24h = None, c_volume = None,
     c_liquidity = None, c_open_interest = None, c_resolution_date = None, c_category = None,
     c_tags = None, c_price = None, c_price_change_24h = None\<rparr>"

definition scenario_market :: "string \<Rightarrow> real \<Rightarrow> unified_market" where
  "scenario_market t v = \<lparr>market_id = [], title = t, outcomes = [], volume_24h = v,
     liquidity = 0, url = [], description = None, resolution_date = None, volume = None,
     open_interest = None, image = None, category = None, tags = None,
     yes = None, no = None, up = None, down = None\<rparr>"

definition scenario_markets :: "unified_market list" where
  "scenario_markets = [scenario_market ''Will Trump win?'' 50000,
     scenario_market ''Bitcoin $100k?'' 75000, scenario_market ''Biden reelect?'' 30000]"

definition search_fields :: "string list option \<Rightarrow> string list" where
  "search_fields search_in_arg = (case search_in_arg of None \<Rightarrow> [''title''] | Some fs \<Rightarrow> fs)"

definition contains_query :: "string \<Rightarrow> string list \<Rightarrow> unified_market \<Rightarrow> bool" where
  "contains_query query flds m = (\<exists>f \<in> set flds. field_hit (lower query) f m)"

text \<open>
  The union of two criteria objects (the keys of the second win where both have one), the
  condition that they have no key in common, and the condition that \<open>search_in\<close> does not
  come from one object while \<open>text\<close> comes from the other.
\<close>

definition key_union :: "'a option \<Rightarrow> 'a option \<Rightarrow> 'a option" where
  "key_union a b = (case b of Some v \<Rightarrow> Some v | None \<Rightarrow> a)"

definition criteria_union ::
  "market_filter_criteria \<Rightarrow> market_filter_criteria \<Rightarrow> market_filter_criteria" where
  "criteria_union c1 c2 =
     \<lparr>c_text = key_union (c_text c1) (c_text c2),
      c_search_in = key_union (c_search_in c1) (c_search_in c2),
      c_volume_24h = key_union (c_volume_24h c1) (c_volume_24h c2),
      c_volume = key_union (c_volume c1) (c_volume c2),
      c_liquidity = key_union (c_liquidity c1) (c_liquidity c2),
      c_open_interest = key_union (c_open_interest c1) (c_open_interest c2),
      c_resolution_date = key_union (c_resolution_date c1) (c_resolution_date c2),
      c_category = key_union (c_category c1) (c_category c2),
      c_tags = key_union (c_tags c1) (c_tags c2),
      c_price = key_union (c_price c1) (c_price c2),
      c_price_change_24h = key_union (c_price_change_24h c1) (c_price_change_24h c2)\<rparr>"

definition both_present :: "'a option \<Rightarrow> 'b option \<Rightarrow> bool" where
  "both_present a b = (a \<noteq> None \<and> b \<noteq> None)"

definition disjoint_keys :: "market_filter_criteria \<Rightarrow> market_filter_criteria \<Rightarrow> bool" where
  "disjoint_keys c1 c2 =
     (\<not> both_present (c_text c1) (c_text c2)
      \<and> \<not> both_present (c_search_in c1) (c_search_in c2)
      \<and> \<not> both_present (c_volume_24h c1) (c_volume_24h c2)
      \<and> \<not> both_present (c_volume c1) (c_volume c2)
      \<and> \<not> both_present (c_liquidity c1) (c_liquidity c2)
      \<and> \<not> both_present (c_open_interest c1) (c_open_interest c2)
      \<and> \<not> both_present (c_resolution_date c1) (c_resolution_date c2)
      \<and> \<not> both_present (c_category c1) (c_category c2)
      \<and> \<not> both_present (c_tags c1) (c_tags c2)
      \<and> \<not> both_present (c_price c1) (c_price c2)
      \<and> \<not> both_present (c_price_change_24h c1) (c_price_change_24h c2))"

definition scope_with_text :: "market_filter_criteria \<Rightarrow> market_filter_criteria \<Rightarrow> bool" where
  "scope_with_text c1 c2 =
     (\<not> both_present (c_text c1) (c_search_in c2) \<and> \<not> both_present (c_text c2) (c_search_in c1))"

definition split_text_market :: unified_market where
  "split_text_market = (scenario_market ''foo'' 0)\<lparr>description := Some ''bar''\<rparr>"

text \<open>
  A value lies outside a range when it is strictly below the lower bound or strictly above
  the upper bound, where the bound is given.  A market with a resolution date.
\<close>

definition out_of_range :: "min_max \<Rightarrow> real \<Rightarrow> bool" where
  "out_of_range f v = ((\<exists>lo. mm_min f = Some lo \<and> v < lo) \<or> (\<exists>hi. mm_max f = Some hi \<and> hi < v))"

definition dated_market :: unified_market where
  "dated_market = (scenario_market ''Dated'' 1)\<lparr>resolution_date := Some 20241105\<rparr>"


text \<open>Launches, and steps of the polling loop, in a trace.\<close>

fun is_launch :: "event \<Rightarrow> bool" where
  "is_launch (Launch cmd) = True"
| "is_launch _ = False"

fun is_poll :: "event \<Rightarrow> bool" where
  "is_poll (HealthGet port timeout) = (timeout = 2)"
| "is_poll (Sleep d) = True"
| "is_poll _ = False"

definition launch_count :: "event list \<Rightarrow> nat" where
  "launch_count tr = length (filter is_launch tr)"

definition poll_count :: "event list \<Rightarrow> nat" where
  "poll_count tr = length (filter is_poll tr)"

text \<open>Worlds for the scenarios.\<close>

definition ok_response :: http_result where
  "ok_response = Response 200 (Parsed (JDict [(''status'', JStr ''ok'')]))"

definition base_world :: world where
  "base_world =
     \<lparr>lock = Absent, lock_dir_writable = True, procs = [], pgroup_reached = (\<lambda>n. True),
      clock = 0,
      endpoint = (\<lambda>t p. ConnectionFailed),
      local_launcher_exists = False, local_launcher = [],
      which_launcher = Some ''/usr/local/bin/pmxt-ensure-server'', x_ok = (\<lambda>p. True),
      subprocess_run = (\<lambda>cmd. \<lparr>r_outcome = Completed 1 ''hello'' ''boom'', r_elapsed = 0,
                               r_lock_after = Absent, r_procs_after = []\<rparr>),
      trace = []\<rparr>"

definition healthy_world :: world where
  "healthy_world =
     base_world\<lparr>lock := Readable (Parsed (JDict [(''pid'', JInt 4242), (''port'', JInt 3848)])),
                procs := [4242],
                endpoint := (\<lambda>t p. if p = JInt 3848 then ok_response else ConnectionFailed)\<rparr>"

definition stale_world :: world where
  "stale_world =
     base_world\<lparr>lock := Readable (Parsed (JDict [(''pid'', JInt 999999999), (''port'', JInt 3847)]))\<rparr>"

definition zero_pid_world :: world where
  "zero_pid_world =
     base_world\<lparr>lock := Readable (Parsed (JDict [(''pid'', JInt 0), (''port'', JInt 3847)]))\<rparr>"

definition read_only_world :: world where
  "read_only_world = stale_world\<lparr>lock_dir_writable := False\<rparr>"

definition negative_pid_world :: world where
  "negative_pid_world =
     base_world\<lparr>lock := Readable (Parsed (JDict [(''pid'', JInt (- 1)), (''port'', JInt 3847)])),
                procs := [4242]\<rparr>"

definition overflow_pid_world :: world where
  "overflow_pid_world =
     base_world\<lparr>lock := Readable (Parsed (JDict [(''pid'', JInt 2147483648), (''port'', JInt 3847)]))\<rparr>"

definition non_object_world :: world where
  "non_object_world = base_world\<lparr>lock := Readable (Parsed (JList []))\<rparr>"

section \<open>The loops are filters\<close>

text \<open>
  Both loops append, in order, the elements that pass a test that looks at one element
  only; so each is a \<open>filter\<close>, and the verdict on a market is a conjunction of the
  verdicts of the blocks.
\<close>

lemma collect_matches_filter:
  "collect_matches q fs ms acc = acc @ filter (scan_fields q fs) ms"
  by (induction ms arbitrary: acc) simp_all

lemma filter_loop_filter:
  "filter_loop params ms acc = acc @ filter (market_passes params) ms"
  by (induction ms arbitrary: acc) simp_all

lemma scan_fields_ex:
  "scan_fields q fs m = (\<exists>f \<in> set fs. field_hit q f m)"
  by (induction fs) simp_all

lemma filter_markets_params: "filter_markets ms (Params p) = filter (market_passes p) ms"
  by (simp add: filter_markets_def filter_loop_filter)

lemma market_passes_conj:
  "market_passes p m =
     (text_ok p m \<and> category_ok p m \<and> tags_ok p m
      \<and> range_ok (c_volume_24h p) (volume_24h m) \<and> range_ok (c_volume p) (or_zero (volume m))
      \<and> range_ok (c_liquidity p) (liquidity m)
      \<and> range_ok (c_open_interest p) (or_zero (open_interest m))
      \<and> resolution_date_ok p m \<and> price_ok p m \<and> price_change_24h_ok p m)"
  by (simp add: market_passes_def)

section \<open>C1: match totality\<close>

lemma scan_fields_contains: "scan_fields (lower q) fs = contains_query q fs"
  by (rule ext) (simp add: scan_fields_ex contains_query_def)

lemma match_matches:
  "MarketList_match self q si =
     (let matches = filter (contains_query q (search_fields si)) self
      in if length matches = 0 then Inl (ValueError (not_found_message q))
         else if length matches > 1 then Inl (ValueError (ambiguous_message q matches))
         else (case matches of m # _ \<Rightarrow> Inr m | [] \<Rightarrow> Inl IndexError))"
  by (simp add: MarketList_match_def collect_matches_filter scan_fields_contains
      search_fields_def Let_def)

lemma join_sublist: "s \<in> set xs \<Longrightarrow> sublist s (join sep xs)"
proof (induction sep xs rule: join.induct)
  case (1 sep)
  then show ?case by simp
next
  case (2 sep x)
  then show ?case by simp
next
  case (3 sep x y ys)
  show ?case
  proof (cases "s = x")
    case True
    then show ?thesis by (simp add: sublist_append_rightI)
  next
    case False
    with 3 have "sublist s (join sep (y # ys))" by simp
    then have "sublist s ((x @ sep) @ join sep (y # ys))"
      by (meson sublist_append_leftI sublist_order.order_trans)
    then show ?thesis by simp
  qed
qed

lemma numbered_titles_entry:
  "m \<in> set ms \<Longrightarrow> \<exists>s \<in> set (numbered_titles i ms). suffix (display_title (title m)) s"
proof (induction ms arbitrary: i)
  case Nil
  then show ?case by simp
next
  case (Cons a ms)
  show ?case
  proof (cases "m = a")
    case True
    have "suffix (display_title (title a)) ((str_nat (i + 1) @ ''. '') @ display_title (title a))"
      by (rule suffix_appendI) simp
    with True show ?thesis by auto
  next
    case False
    with Cons.prems have "m \<in> set ms" by simp
    from Cons.IH[OF this, of "i + 1"] show ?thesis by auto
  qed
qed

lemma ambiguous_message_lists:
  assumes "m \<in> set ms"
  shows "sublist (display_title (title m)) (ambiguous_message q ms)"
proof -
  from numbered_titles_entry[OF assms, of 0] obtain s where
    s: "s \<in> set (numbered_titles 0 ms)" and suf: "suffix (display_title (title m)) s"
    by blast
  have "sublist s (join (nl @ ''  '') (numbered_titles 0 ms))"
    using s by (rule join_sublist)
  with suf have a: "sublist (display_title (title m)) (join (nl @ ''  '') (numbered_titles 0 ms))"
    by (meson suffix_imp_sublist sublist_order.order_trans)
  have "sublist (join (nl @ ''  '') (numbered_titles 0 ms)) (ambiguous_message q ms)"
    unfolding ambiguous_message_def
    by (metis append.assoc sublist_appendI)
  with a show ?thesis by (rule sublist_order.order_trans)
qed

lemma not_found_message_embeds: "sublist q (not_found_message q)"
  unfolding not_found_message_def by (metis append.assoc sublist_appendI)

text \<open>
  C1.  For every list of markets, query and \<open>search_in\<close> argument (\<open>None\<close> being the
  default, title only): when no record contains the query in a scanned field, \<open>match\<close>
  raises \<open>ValueError\<close> with the not-found message, which embeds the query; when exactly one
  record does, \<open>match\<close> returns that record; when two or more do, \<open>match\<close> raises
  \<open>ValueError\<close> with the ambiguity message, in which the title of every matching record
  appears, cut to its first 70 characters (followed by \<open>...\<close> when it was longer).
  A record with an empty title never matches on its title, as the empty string is falsy.
\<close>

theorem match_totality:
  "(filter (contains_query q (search_fields si)) self = [] \<longrightarrow>
      MarketList_match self q si = Inl (ValueError (not_found_message q))
      \<and> sublist q (not_found_message q))
   \<and> (\<forall>r. filter (contains_query q (search_fields si)) self = [r] \<longrightarrow>
      MarketList_match self q si = Inr r \<and> r \<in> set self \<and> contains_query q (search_fields si) r)
   \<and> (2 \<le> length (filter (contains_query q (search_fields si)) self) \<longrightarrow>
      MarketList_match self q si =
        Inl (ValueError (ambiguous_message q (filter (contains_query q (search_fields si)) self)))
      \<and> (\<forall>m \<in> set self. contains_query q (search_fields si) m \<longrightarrow>
           sublist (take 70 (title m) @ (if 70 < length (title m) then ''...'' else ''''))
             (ambiguous_message q (filter (contains_query q (search_fields si)) self))))"
proof (intro conjI allI impI ballI)
  assume "filter (contains_query q (search_fields si)) self = []"
  then show "MarketList_match self q si = Inl (ValueError (not_found_message q))"
    by (simp add: match_matches)
next
  show "sublist q (not_found_message q)" by (rule not_found_message_embeds)
next
  fix r assume "filter (contains_query q (search_fields si)) self = [r]"
  then show "MarketList_match self q si = Inr r"
    by (simp add: match_matches)
next
  fix r assume "filter (contains_query q (search_fields si)) self = [r]"
  then have "r \<in> set (filter (contains_query q (search_fields si)) self)" by simp
  then show "r \<in> set self" by simp
next
  fix r assume "filter (contains_query q (search_fields si)) self = [r]"
  then have "r \<in> set (filter (contains_query q (search_fields si)) self)" by simp
  then show "contains_query q (search_fields si) r" by simp
next
  assume "2 \<le> length (filter (contains_query q (search_fields si)) self)"
  then show "MarketList_match self q si =
        Inl (ValueError (ambiguous_message q (filter (contains_query q (search_fields si)) self)))"
    by (auto simp add: match_matches Let_def)
next
  fix m assume "m \<in> set self" "contains_query q (search_fields si) m"
  then have "m \<in> set (filter (contains_query q (search_fields si)) self)" by simp
  from ambiguous_message_lists[OF this, of q]
  show "sublist (take 70 (title m) @ (if 70 < length (title m) then ''...'' else ''''))
             (ambiguous_message q (filter (contains_query q (search_fields si)) self))"
    by (simp add: display_title_def)
qed

lemma default_fields_title:
  "contains_query q (search_fields None) m = (title m \<noteq> [] \<and> str_in (lower q) (lower (title m)))"
  by (simp add: contains_query_def search_fields_def field_hit_def title_has_def)

theorem match_totality_witness:
  "MarketList_match scenario_markets ''Trump'' None = Inr (scenario_market ''Will Trump win?'' 50000)
   \<and> MarketList_match scenario_markets ''zzz'' None = Inl (ValueError (not_found_message ''zzz''))
   \<and> MarketList_match scenario_markets ''bi'' None =
       Inl (ValueError (ambiguous_message ''bi''
         [scenario_market ''Bitcoin $100k?'' 75000, scenario_market ''Biden reelect?'' 30000]))"
proof -
  have a: "filter (contains_query ''Trump'' (search_fields None)) scenario_markets
             = [scenario_market ''Will Trump win?'' 50000]"
    by code_simp
  have b: "filter (contains_query ''zzz'' (search_fields None)) scenario_markets = []"
    by code_simp
  have c: "filter (contains_query ''bi'' (search_fields None)) scenario_markets
             = [scenario_market ''Bitcoin $100k?'' 75000, scenario_market ''Biden reelect?'' 30000]"
    by code_simp
  show ?thesis
    using match_totality[of "''Trump''" None scenario_markets]
      match_totality[of "''zzz''" None scenario_markets]
      match_totality[of "''bi''" None scenario_markets]
    by (simp add: a b c)
qed

section \<open>C2: the string shorthand\<close>

lemma empty_criteria_passes_text:
  "market_passes (empty_criteria\<lparr>c_text := Some s, c_search_in := Some [''title'']\<rparr>) m
     = title_has (lower s) m"
  by (simp add: market_passes_conj empty_criteria_def text_ok_def category_ok_def tags_ok_def
      range_ok_def resolution_date_ok_def price_ok_def price_change_24h_ok_def)

text \<open>
  C2.  For every list of markets and every string \<open>s\<close>, filtering with the string \<open>s\<close>
  gives the same list, in the same order, as filtering with the criteria object
  \<open>{text: s, search_in: [title]}\<close>.
\<close>

theorem string_filter_equivalence:
  "filter_markets R (Str s)
     = filter_markets R (Params (empty_criteria\<lparr>c_text := Some s, c_search_in := Some [''title'']\<rparr>))"
proof -
  have "market_passes (empty_criteria\<lparr>c_text := Some s, c_search_in := Some [''title'']\<rparr>)
          = title_has (lower s)"
    by (rule ext) (rule empty_criteria_passes_text)
  then show ?thesis
    by (simp add: filter_markets_params) (simp add: filter_markets_def)
qed

theorem string_filter_equivalence_witness:
  "filter_markets scenario_markets
     (Params (empty_criteria\<lparr>c_text := Some ''BI'', c_search_in := Some [''title'']\<rparr>))
   = [scenario_market ''Bitcoin $100k?'' 75000, scenario_market ''Biden reelect?'' 30000]"
proof -
  have "filter_markets scenario_markets (Str ''BI'')
     = [scenario_market ''Bitcoin $100k?'' 75000, scenario_market ''Biden reelect?'' 30000]"
    by code_simp
  with string_filter_equivalence[of scenario_markets "''BI''"] show ?thesis by simp
qed

section \<open>C3: filter conjunction\<close>

lemma key_union_None [simp]: "key_union a None = a" "key_union None b = b"
  by (simp_all add: key_union_def split: option.splits)

lemma not_both: "\<not> both_present a b \<Longrightarrow> a = None \<or> b = None"
  by (simp add: both_present_def)

lemma range_ok_union:
  "\<not> both_present a b \<Longrightarrow> range_ok (key_union a b) v = (range_ok a v \<and> range_ok b v)"
  by (auto dest!: not_both simp: range_ok_def)

lemma text_ok_union:
  assumes "\<not> both_present (c_text c1) (c_text c2)"
    and "\<not> both_present (c_search_in c1) (c_search_in c2)"
    and "scope_with_text c1 c2"
  shows "text_ok (criteria_union c1 c2) m = (text_ok c1 m \<and> text_ok c2 m)"
proof -
  from assms(1) consider "c_text c1 = None" "c_text c2 = None"
    | t where "c_text c1 = Some t" "c_text c2 = None"
    | t where "c_text c1 = None" "c_text c2 = Some t"
    by (cases "c_text c1"; cases "c_text c2") (auto simp: both_present_def)
  then show ?thesis
  proof cases
    case 1
    then show ?thesis by (simp add: text_ok_def criteria_union_def)
  next
    case 2
    with assms(3) have "c_search_in c2 = None" by (simp add: scope_with_text_def both_present_def)
    with 2 show ?thesis by (simp add: text_ok_def criteria_union_def)
  next
    case 3
    with assms(3) have "c_search_in c1 = None" by (simp add: scope_with_text_def both_present_def)
    with 3 show ?thesis by (simp add: text_ok_def criteria_union_def)
  qed
qed

lemma category_ok_union:
  "\<not> both_present (c_category c1) (c_category c2) \<Longrightarrow>
   category_ok (criteria_union c1 c2) m = (category_ok c1 m \<and> category_ok c2 m)"
  by (auto dest!: not_both simp: category_ok_def criteria_union_def)

lemma tags_ok_union:
  "\<not> both_present (c_tags c1) (c_tags c2) \<Longrightarrow>
   tags_ok (criteria_union c1 c2) m = (tags_ok c1 m \<and> tags_ok c2 m)"
  by (auto dest!: not_both simp: tags_ok_def criteria_union_def)

lemma resolution_date_ok_union:
  "\<not> both_present (c_resolution_date c1) (c_resolution_date c2) \<Longrightarrow>
   resolution_date_ok (criteria_union c1 c2) m = (resolution_date_ok c1 m \<and> resolution_date_ok c2 m)"
  by (auto dest!: not_both simp: resolution_date_ok_def criteria_union_def)

lemma price_ok_union:
  "\<not> both_present (c_price c1) (c_price c2) \<Longrightarrow>
   price_ok (criteria_union c1 c2) m = (price_ok c1 m \<and> price_ok c2 m)"
  by (auto dest!: not_both simp: price_ok_def criteria_union_def)

lemma price_change_24h_ok_union:
  "\<not> both_present (c_price_change_24h c1) (c_price_change_24h c2) \<Longrightarrow>
   price_change_24h_ok (criteria_union c1 c2) m
     = (price_change_24h_ok c1 m \<and> price_change_24h_ok c2 m)"
  by (auto dest!: not_both simp: price_change_24h_ok_def criteria_union_def)

lemma market_passes_union:
  assumes d: "disjoint_keys c1 c2" and s: "scope_with_text c1 c2"
  shows "market_passes (criteria_union c1 c2) m = (market_passes c1 m \<and> market_passes c2 m)"
proof -
  have t: "text_ok (criteria_union c1 c2) m = (text_ok c1 m \<and> text_ok c2 m)"
    using d s by (intro text_ok_union) (simp_all add: disjoint_keys_def)
  have c: "category_ok (criteria_union c1 c2) m = (category_ok c1 m \<and> category_ok c2 m)"
    using d by (intro category_ok_union) (simp add: disjoint_keys_def)
  have g: "tags_ok (criteria_union c1 c2) m = (tags_ok c1 m \<and> tags_ok c2 m)"
    using d by (intro tags_ok_union) (simp add: disjoint_keys_def)
  have v1: "range_ok (c_volume_24h (criteria_union c1 c2)) (volume_24h m)
      = (range_ok (c_volume_24h c1) (volume_24h m) \<and> range_ok (c_volume_24h c2) (volume_24h m))"
    using d by (simp add: criteria_union_def range_ok_union disjoint_keys_def)
  have v2: "range_ok (c_volume (criteria_union c1 c2)) (or_zero (volume m))
      = (range_ok (c_volume c1) (or_zero (volume m)) \<and> range_ok (c_volume c2) (or_zero (volume m)))"
    using d by (simp add: criteria_union_def range_ok_union disjoint_keys_def)
  have v3: "range_ok (c_liquidity (criteria_union c1 c2)) (liquidity m)
      = (range_ok (c_liquidity c1) (liquidity m) \<and> range_ok (c_liquidity c2) (liquidity m))"
    using d by (simp add: criteria_union_def range_ok_union disjoint_keys_def)
  have v4: "range_ok (c_open_interest (criteria_union c1 c2)) (or_zero (open_interest m))
      = (range_ok (c_open_interest c1) (or_zero (open_interest m))
         \<and> range_ok (c_open_interest c2) (or_zero (open_interest m)))"
    using d by (simp add: criteria_union_def range_ok_union disjoint_keys_def)
  have r: "resolution_date_ok (criteria_union c1 c2) m
      = (resolution_date_ok c1 m \<and> resolution_date_ok c2 m)"
    using d by (intro resolution_date_ok_union) (simp add: disjoint_keys_def)
  have p: "price_ok (criteria_union c1 c2) m = (price_ok c1 m \<and> price_ok c2 m)"
    using d by (intro price_ok_union) (simp add: disjoint_keys_def)
  have pc: "price_change_24h_ok (criteria_union c1 c2) m
      = (price_change_24h_ok c1 m \<and> price_change_24h_ok c2 m)"
    using d by (intro price_change_24h_ok_union) (simp add: disjoint_keys_def)
  show ?thesis
    unfolding market_passes_conj t c g v1 v2 v3 v4 r p pc by blast
qed

text \<open>
  C3 (as amended).  For every list of markets and every two criteria objects with no key
  in common, where moreover \<open>search_in\<close> is not supplied by one object while \<open>text\<close> is
  supplied by the other: filtering with the union gives the same list as filtering with the
  first and then filtering the result with the second; and filtering with a criteria object
  keeps exactly the markets that pass it, each judged on its own.
\<close>

theorem filter_conjunction:
  assumes "disjoint_keys c1 c2" and "scope_with_text c1 c2"
  shows "filter_markets R (Params (criteria_union c1 c2))
           = filter_markets (filter_markets R (Params c1)) (Params c2)
         \<and> filter_markets R (Params c1) = filter (market_passes c1) R"
proof -
  have "market_passes (criteria_union c1 c2) = (\<lambda>m. market_passes c1 m \<and> market_passes c2 m)"
    by (rule ext) (rule market_passes_union[OF assms])
  then have "filter (market_passes (criteria_union c1 c2)) R
          = filter (market_passes c2) (filter (market_passes c1) R)"
    by (simp add: conj_commute)
  then show ?thesis by (simp add: filter_markets_params)
qed

text \<open>
  As stated, with disjointness of keys alone, the property fails: \<open>search_in\<close> is a key of
  its own, read only together with \<open>text\<close>.  With \<open>{text: foo}\<close> and
  \<open>{search_in: [description]}\<close> the union searches the description, the sequence the title.
\<close>

theorem filter_conjunction_counterexample:
  "disjoint_keys (empty_criteria\<lparr>c_text := Some ''foo''\<rparr>)
       (empty_criteria\<lparr>c_search_in := Some [''description'']\<rparr>)
   \<and> filter_markets [split_text_market]
       (Params (criteria_union (empty_criteria\<lparr>c_text := Some ''foo''\<rparr>)
          (empty_criteria\<lparr>c_search_in := Some [''description'']\<rparr>))) = []
   \<and> filter_markets (filter_markets [split_text_market]
         (Params (empty_criteria\<lparr>c_text := Some ''foo''\<rparr>)))
       (Params (empty_criteria\<lparr>c_search_in := Some [''description'']\<rparr>)) = [split_text_market]
   \<and> filter_markets [split_text_market]
       (Params (criteria_union (empty_criteria\<lparr>c_text := Some ''foo''\<rparr>)
          (empty_criteria\<lparr>c_search_in := Some [''description'']\<rparr>)))
     \<noteq> filter_markets (filter_markets [split_text_market]
         (Params (empty_criteria\<lparr>c_text := Some ''foo''\<rparr>)))
       (Params (empty_criteria\<lparr>c_search_in := Some [''description'']\<rparr>))"
  by code_simp

theorem filter_conjunction_witness:
  "filter_markets scenario_markets
     (Params (criteria_union (empty_criteria\<lparr>c_text := Some ''bi''\<rparr>)
        (empty_criteria\<lparr>c_volume_24h := Some \<lparr>mm_min = Some 40000, mm_max = None\<rparr>\<rparr>)))
   = [scenario_market ''Bitcoin $100k?'' 75000]"
proof -
  have d: "disjoint_keys (empty_criteria\<lparr>c_text := Some ''bi''\<rparr>)
        (empty_criteria\<lparr>c_volume_24h := Some \<lparr>mm_min = Some 40000, mm_max = None\<rparr>\<rparr>)"
    by code_simp
  have s: "scope_with_text (empty_criteria\<lparr>c_text := Some ''bi''\<rparr>)
        (empty_criteria\<lparr>c_volume_24h := Some \<lparr>mm_min = Some 40000, mm_max = None\<rparr>\<rparr>)"
    by code_simp
  have e: "filter_markets (filter_markets scenario_markets (Params (empty_criteria\<lparr>c_text := Some ''bi''\<rparr>)))
      (Params (empty_criteria\<lparr>c_volume_24h := Some \<lparr>mm_min = Some 40000, mm_max = None\<rparr>\<rparr>))
     = [scenario_market ''Bitcoin $100k?'' 75000]"
    by code_simp
  from filter_conjunction[OF d s, of scenario_markets] e show ?thesis by simp
qed

section \<open>C4: inclusive numeric ranges\<close>

lemma range_rejects_out: "range_rejects f v = out_of_range f v"
  by (auto simp: range_rejects_def out_of_range_def below_min_def above_max_def split: option.splits)

lemma only_volume_24h:
  "market_passes (empty_criteria\<lparr>c_volume_24h := Some f\<rparr>) m = (\<not> out_of_range f (volume_24h m))"
  by (simp add: market_passes_conj empty_criteria_def text_ok_def category_ok_def tags_ok_def
      range_ok_def resolution_date_ok_def price_ok_def price_change_24h_ok_def range_rejects_out)

lemma only_volume:
  "market_passes (empty_criteria\<lparr>c_volume := Some f\<rparr>) m
     = (\<not> out_of_range f (case volume m of None \<Rightarrow> 0 | Some v \<Rightarrow> v))"
  by (simp add: market_passes_conj empty_criteria_def text_ok_def category_ok_def tags_ok_def
      range_ok_def resolution_date_ok_def price_ok_def price_change_24h_ok_def range_rejects_out
      or_zero_def)

lemma only_liquidity:
  "market_passes (empty_criteria\<lparr>c_liquidity := Some f\<rparr>) m = (\<not> out_of_range f (liquidity m))"
  by (simp add: market_passes_conj empty_criteria_def text_ok_def category_ok_def tags_ok_def
      range_ok_def resolution_date_ok_def price_ok_def price_change_24h_ok_def range_rejects_out)

lemma only_open_interest:
  "market_passes (empty_criteria\<lparr>c_open_interest := Some f\<rparr>) m
     = (\<not> out_of_range f (case open_interest m of None \<Rightarrow> 0 | Some v \<Rightarrow> v))"
  by (simp add: market_passes_conj empty_criteria_def text_ok_def category_ok_def tags_ok_def
      range_ok_def resolution_date_ok_def price_ok_def price_change_24h_ok_def range_rejects_out
      or_zero_def)

lemma scenario_volume_filter:
  "filter_markets scenario_markets
      (Params (empty_criteria\<lparr>c_volume_24h := Some \<lparr>mm_min = Some 40000, mm_max = None\<rparr>\<rparr>))
     = [scenario_market ''Will Trump win?'' 50000, scenario_market ''Bitcoin $100k?'' 75000]"
  by code_simp

text \<open>
  C4.  For every list of markets and every range on \<open>volume_24h\<close>, \<open>volume\<close>,
  \<open>liquidity\<close> or \<open>open_interest\<close> (an absent \<open>volume\<close> or \<open>open_interest\<close> counting
  as 0), filtering with that range alone drops exactly the markets whose value is strictly
  below \<open>min\<close> or strictly above \<open>max\<close>, so both bounds are inclusive; and on the three
  markets of the scenario, \<open>{volume_24h: {min: 40000}}\<close> returns the Trump and the Bitcoin
  market, in input order.
\<close>

theorem range_inclusive:
  "filter_markets ms (Params (empty_criteria\<lparr>c_volume_24h := Some f\<rparr>))
     = filter (\<lambda>m. \<not> ((\<exists>lo. mm_min f = Some lo \<and> volume_24h m < lo)
                      \<or> (\<exists>hi. mm_max f = Some hi \<and> hi < volume_24h m))) ms
   \<and> filter_markets ms (Params (empty_criteria\<lparr>c_volume := Some f\<rparr>))
     = filter (\<lambda>m. \<not> ((\<exists>lo. mm_min f = Some lo \<and> (case volume m of None \<Rightarrow> 0 | Some v \<Rightarrow> v) < lo)
                      \<or> (\<exists>hi. mm_max f = Some hi \<and> hi < (case volume m of None \<Rightarrow> 0 | Some v \<Rightarrow> v)))) ms
   \<and> filter_markets ms (Params (empty_criteria\<lparr>c_liquidity := Some f\<rparr>))
     = filter (\<lambda>m. \<not> ((\<exists>lo. mm_min f = Some lo \<and> liquidity m < lo)
                      \<or> (\<exists>hi. mm_max f = Some hi \<and> hi < liquidity m))) ms
   \<and> filter_markets ms (Params (empty_criteria\<lparr>c_open_interest := Some f\<rparr>))
     = filter (\<lambda>m. \<not> ((\<exists>lo. mm_min f = Some lo \<and> (case open_interest m of None \<Rightarrow> 0 | Some v \<Rightarrow> v) < lo)
                      \<or> (\<exists>hi. mm_max f = Some hi \<and> hi < (case open_interest m of None \<Rightarrow> 0 | Some v \<Rightarrow> v)))) ms
   \<and> filter_markets scenario_markets
      (Params (empty_criteria\<lparr>c_volume_24h := Some \<lparr>mm_min = Some 40000, mm_max = None\<rparr>\<rparr>))
     = [scenario_market ''Will Trump win?'' 50000, scenario_market ''Bitcoin $100k?'' 75000]"
proof (intro conjI)
  show "filter_markets ms (Params (empty_criteria\<lparr>c_volume_24h := Some f\<rparr>))
     = filter (\<lambda>m. \<not> ((\<exists>lo. mm_min f = Some lo \<and> volume_24h m < lo)
                      \<or> (\<exists>hi. mm_max f = Some hi \<and> hi < volume_24h m))) ms"
    unfolding filter_markets_params
    by (rule filter_cong[OF refl]) (simp only: only_volume_24h out_of_range_def)
  show "filter_markets ms (Params (empty_criteria\<lparr>c_volume := Some f\<rparr>))
     = filter (\<lambda>m. \<not> ((\<exists>lo. mm_min f = Some lo \<and> (case volume m of None \<Rightarrow> 0 | Some v \<Rightarrow> v) < lo)
                      \<or> (\<exists>hi. mm_max f = Some hi \<and> hi < (case volume m of None \<Rightarrow> 0 | Some v \<Rightarrow> v)))) ms"
    unfolding filter_markets_params
    by (rule filter_cong[OF refl]) (simp only: only_volume out_of_range_def)
  show "filter_markets ms (Params (empty_criteria\<lparr>c_liquidity := Some f\<rparr>))
     = filter (\<lambda>m. \<not> ((\<exists>lo. mm_min f = Some lo \<and> liquidity m < lo)
                      \<or> (\<exists>hi. mm_max f = Some hi \<and> hi < liquidity m))) ms"
    unfolding filter_markets_params
    by (rule filter_cong[OF refl]) (simp only: only_liquidity out_of_range_def)
  show "filter_markets ms (Params (empty_criteria\<lparr>c_open_interest := Some f\<rparr>))
     = filter (\<lambda>m. \<not> ((\<exists>lo. mm_min f = Some lo \<and> (case open_interest m of None \<Rightarrow> 0 | Some v \<Rightarrow> v) < lo)
                      \<or> (\<exists>hi. mm_max f = Some hi \<and> hi < (case open_interest m of None \<Rightarrow> 0 | Some v \<Rightarrow> v)))) ms"
    unfolding filter_markets_params
    by (rule filter_cong[OF refl]) (simp only: only_open_interest out_of_range_def)
  show "filter_markets scenario_markets
      (Params (empty_criteria\<lparr>c_volume_24h := Some \<lparr>mm_min = Some 40000, mm_max = None\<rparr>\<rparr>))
     = [scenario_market ''Will Trump win?'' 50000, scenario_market ''Bitcoin $100k?'' 75000]"
    by (rule scenario_volume_filter)
qed

theorem range_inclusive_witness:
  "filter_markets scenario_markets
      (Params (empty_criteria\<lparr>c_volume_24h := Some \<lparr>mm_min = Some 30000, mm_max = Some 50000\<rparr>\<rparr>))
     = [scenario_market ''Will Trump win?'' 50000, scenario_market ''Biden reelect?'' 30000]"
proof -
  have "filter (\<lambda>m. \<not> ((\<exists>lo. mm_min \<lparr>mm_min = Some 30000, mm_max = Some 50000\<rparr> = Some lo \<and> volume_24h m < lo)
                      \<or> (\<exists>hi. mm_max \<lparr>mm_min = Some 30000, mm_max = Some 50000\<rparr> = Some hi \<and> hi < volume_24h m)))
          scenario_markets
        = [scenario_market ''Will Trump win?'' 50000, scenario_market ''Biden reelect?'' 30000]"
    by (simp add: scenario_markets_def scenario_market_def)
  with range_inclusive[of scenario_markets "\<lparr>mm_min = Some 30000, mm_max = Some 50000\<rparr>"]
  show ?thesis by simp
qed

section \<open>C5: a healthy server short-circuits\<close>

lemma alive_true_world:
  "is_server_alive w = (Inr True, w') \<Longrightarrow> \<exists>port. w' = w\<lparr>trace := trace w @ [HealthGet port 1]\<rparr>"
  by (auto simp: is_server_alive_def is_server_alive_body_def check_health_def Let_def
      split: if_splits lock_file.splits file_content.splits json.splits sum.splits
        py_error.splits bool.splits http_result.splits prod.splits)

text \<open>
  C5.  Whenever the alive check reports the server alive and healthy,
  \<open>ensure_server_running\<close> returns at once in the world the alive check left: the only
  thing it has done is the one health request of the alive check (timeout 1); no launch,
  no step of the polling loop, no time spent.  So a second call in a row, the server still
  healthy, launches nothing either.
\<close>

theorem ensure_idempotent:
  assumes "fst (is_server_alive w) = Inr True"
  shows "ensure_server_running self_port w = (Inr (), snd (is_server_alive w))
    \<and> (\<exists>port. trace (snd (ensure_server_running self_port w)) = trace w @ [HealthGet port 1])
    \<and> launch_count (trace (snd (ensure_server_running self_port w))) = launch_count (trace w)
    \<and> poll_count (trace (snd (ensure_server_running self_port w))) = poll_count (trace w)
    \<and> clock (snd (ensure_server_running self_port w)) = clock w"
proof -
  obtain w' where a: "is_server_alive w = (Inr True, w')"
    using assms by (cases "is_server_alive w") simp
  then obtain port where w': "w' = w\<lparr>trace := trace w @ [HealthGet port 1]\<rparr>"
    using alive_true_world by blast
  have e: "ensure_server_running self_port w = (Inr (), w')"
    using a by (simp add: ensure_server_running_def)
  show ?thesis
    using a by (simp add: e w' launch_count_def poll_count_def)
qed

theorem ensure_idempotent_witness:
  "fst (is_server_alive healthy_world) = Inr True
   \<and> fst (ensure_server_running 3847 healthy_world) = Inr ()
   \<and> launch_count (trace (snd (ensure_server_running 3847 healthy_world))) = 0
   \<and> poll_count (trace (snd (ensure_server_running 3847 healthy_world))) = 0
   \<and> fst (ensure_server_running 3847 (snd (ensure_server_running 3847 healthy_world))) = Inr ()
   \<and> launch_count (trace (snd (ensure_server_running 3847
        (snd (ensure_server_running 3847 healthy_world))))) = 0
   \<and> poll_count (trace (snd (ensure_server_running 3847
        (snd (ensure_server_running 3847 healthy_world))))) = 0"
proof -
  have h1: "fst (is_server_alive healthy_world) = Inr True"
    by code_simp
  have t0: "launch_count (trace healthy_world) = 0" "poll_count (trace healthy_world) = 0"
    by code_simp+
  note first = ensure_idempotent[OF h1, of 3847]
  have h2: "fst (is_server_alive (snd (ensure_server_running 3847 healthy_world))) = Inr True"
    by code_simp
  note second = ensure_idempotent[OF h2, of 3847]
  have f1: "fst (ensure_server_running 3847 healthy_world) = Inr ()"
    using first[THEN conjunct1] by simp
  have f2: "launch_count (trace (snd (ensure_server_running 3847 healthy_world))) = 0"
    using first[THEN conjunct2, THEN conjunct2, THEN conjunct1] t0(1) by (rule trans)
  have f3: "poll_count (trace (snd (ensure_server_running 3847 healthy_world))) = 0"
    using first[THEN conjunct2, THEN conjunct2, THEN conjunct2, THEN conjunct1] t0(2)
    by (rule trans)
  have s1: "fst (ensure_server_running 3847 (snd (ensure_server_running 3847 healthy_world)))
      = Inr ()"
    using second[THEN conjunct1] by simp
  have s2: "launch_count (trace (snd (ensure_server_running 3847
        (snd (ensure_server_running 3847 healthy_world))))) = 0"
    using second[THEN conjunct2, THEN conjunct2, THEN conjunct1] f2 by (rule trans)
  have s3: "poll_count (trace (snd (ensure_server_running 3847
        (snd (ensure_server_running 3847 healthy_world))))) = 0"
    using second[THEN conjunct2, THEN conjunct2, THEN conjunct2, THEN conjunct1] f3
    by (rule trans)
  from h1 f1 f2 f3 s1 s2 s3 show ?thesis by (intro conjI)
qed

section \<open>C6: stale lock reclamation\<close>

text \<open>
  C6 (as amended).  For every lock file that exists, parses as a JSON object and records
  as pid an integer from 1 to 2147483647 (a process id that \<open>os.kill\<close> takes) that no
  running process has, \<open>is_server_alive\<close> returns false and removes the lock file,
  provided the removal succeeds (the directory allows it); a second call then finds no
  lock file and returns false again.
\<close>

theorem stale_lock_reclaimed:
  assumes "lock w = Readable (Parsed (JDict d))"
    and "dict_get d ''pid'' = JInt pid"
    and "0 < pid"
    and "pid \<le> 2147483647"
    and "pid \<notin> set (procs w)"
    and "lock_dir_writable w"
  shows "is_server_alive w = (Inr False, w\<lparr>lock := Absent\<rparr>)
    \<and> lock (snd (is_server_alive w)) = Absent
    \<and> is_server_alive (snd (is_server_alive w)) = (Inr False, snd (is_server_alive w))"
proof -
  have k: "os_kill_0 w (JInt pid) = Inl OSError"
    using assms(3-5) by (simp add: kill_int_def C_INT_MIN_def C_INT_MAX_def)
  have a: "is_server_alive w = (Inr False, w\<lparr>lock := Absent\<rparr>)"
    using assms(1,2,3,6) k
    by (simp add: is_server_alive_def is_server_alive_body_def is_process_running_def
        remove_stale_lock_def unlink_def Let_def)
  have b: "is_server_alive (w\<lparr>lock := Absent\<rparr>) = (Inr False, w\<lparr>lock := Absent\<rparr>)"
    by (simp add: is_server_alive_def)
  show ?thesis by (simp add: a b)
qed

theorem stale_lock_reclaimed_witness:
  "fst (is_server_alive stale_world) = Inr False
   \<and> lock (snd (is_server_alive stale_world)) = Absent
   \<and> fst (is_server_alive (snd (is_server_alive stale_world))) = Inr False"
proof -
  have l: "lock stale_world
      = Readable (Parsed (JDict [(''pid'', JInt 999999999), (''port'', JInt 3847)]))"
    by (simp add: stale_world_def)
  have p: "dict_get [(''pid'', JInt 999999999), (''port'', JInt 3847)] ''pid'' = JInt 999999999"
    by (simp add: dict_get_def)
  have n: "(0::int) < 999999999" by simp
  have u: "(999999999::int) \<le> 2147483647" by simp
  have r: "(999999999::int) \<notin> set (procs stale_world)"
    by (simp add: stale_world_def base_world_def)
  have d: "lock_dir_writable stale_world"
    by (simp add: stale_world_def base_world_def)
  note t = stale_lock_reclaimed[OF l p n u r d]
  have a: "fst (is_server_alive stale_world) = Inr False"
    using t[THEN conjunct1] by simp
  have b: "lock (snd (is_server_alive stale_world)) = Absent"
    using t[THEN conjunct2, THEN conjunct1] .
  have c: "fst (is_server_alive (snd (is_server_alive stale_world))) = Inr False"
    using t[THEN conjunct2, THEN conjunct2] by simp
  from a b c show ?thesis by (intro conjI)
qed

text \<open>
  As stated the property fails.  A recorded pid of 0 is falsy, so the guard
  \<open>if not pid\<close> returns false before the process is probed and the lock file stays.
  \<open>_remove_stale_lock\<close> swallows a failing \<open>unlink\<close>, so where the file cannot be removed
  it stays as well.  A recorded pid of -1 is no process id: the signal goes to every process,
  the probe succeeds and the lock file stays.  And a recorded pid of 2147483648, which no
  process has, does not fit a C \<open>int\<close>: the probe raises \<open>OverflowError\<close>, which nothing
  catches, so the call raises instead of returning false.
\<close>

theorem stale_lock_counterexample:
  "lock zero_pid_world = Readable (Parsed (JDict [(''pid'', JInt 0), (''port'', JInt 3847)]))
   \<and> 0 \<notin> set (procs zero_pid_world)
   \<and> fst (is_server_alive zero_pid_world) = Inr False
   \<and> lock (snd (is_server_alive zero_pid_world)) \<noteq> Absent
   \<and> lock read_only_world
       = Readable (Parsed (JDict [(''pid'', JInt 999999999), (''port'', JInt 3847)]))
   \<and> 999999999 \<notin> set (procs read_only_world)
   \<and> fst (is_server_alive read_only_world) = Inr False
   \<and> lock (snd (is_server_alive read_only_world)) \<noteq> Absent
   \<and> lock negative_pid_world
       = Readable (Parsed (JDict [(''pid'', JInt (- 1)), (''port'', JInt 3847)]))
   \<and> - 1 \<notin> set (procs negative_pid_world)
   \<and> fst (is_server_alive negative_pid_world) = Inr False
   \<and> lock (snd (is_server_alive negative_pid_world)) \<noteq> Absent
   \<and> lock overflow_pid_world
       = Readable (Parsed (JDict [(''pid'', JInt 2147483648), (''port'', JInt 3847)]))
   \<and> 2147483648 \<notin> set (procs overflow_pid_world)
   \<and> fst (is_server_alive overflow_pid_world) = Inl OverflowError"
  by code_simp

section \<open>C7: malformed lock files\<close>

text \<open>
  What holds: an unreadable lock file, one that does not parse, and a JSON object without
  a \<open>pid\<close> key all give false, with nothing raised and nothing changed.
\<close>

lemma malformed_lock_not_alive:
  assumes "lock w = Unreadable \<or> lock w = Readable Unparseable
     \<or> (\<exists>d. lock w = Readable (Parsed (JDict d)) \<and> map_of d ''pid'' = None)"
  shows "is_server_alive w = (Inr False, w)"
  using assms
  by (auto simp: is_server_alive_def is_server_alive_body_def dict_get_def Let_def)

text \<open>
  C7.  The claim is that every unreadable or malformed lock file, and every one lacking
  the pid field, makes \<open>is_server_alive\<close> return false without raising.  A lock file whose
  content is valid JSON but not an object (here the empty array) has no pid field, yet
  \<open>lock_data.get\<close> raises \<open>AttributeError\<close> on it, which the clause
  \<open>except (json.JSONDecodeError, OSError)\<close> does not catch: the call raises.
\<close>

theorem non_object_lock_raises:
  "lock non_object_world = Readable (Parsed (JList []))
   \<and> fst (is_server_alive non_object_world) = Inl AttributeError"
  by code_simp

section \<open>C8: launcher failure\<close>

lemma launcher_failure_raised:
  assumes "is_server_alive w = (Inr False, w1)"
    and "find_launcher w1 = Some l"
    and "l \<noteq> []"
    and "r_outcome (subprocess_run w1 (launcher_cmd w1 l)) = Completed rc out err"
    and "rc \<noteq> 0"
  shows "fst (ensure_server_running self_port w)
    = Inl (PyException ((''Failed to start server: '' @ ''Failed to start server: '')
             @ (if err \<noteq> [] then err else out)))"
  using assms
  by (simp add: ensure_server_running_def start_server_via_launcher_def run_launcher_def Let_def)

text \<open>
  C8 (as amended).  Whenever the server is not alive, the launcher is found and its
  process exits with a non-zero return code, \<open>ensure_server_running\<close> fails with an
  exception whose message contains the launcher's stderr text when that is not empty, and
  its stdout text otherwise.
\<close>

theorem launcher_failure_message:
  assumes "is_server_alive w = (Inr False, w1)"
    and "find_launcher w1 = Some l"
    and "l \<noteq> []"
    and "r_outcome (subprocess_run w1 (launcher_cmd w1 l)) = Completed rc out err"
    and "rc \<noteq> 0"
  shows "\<exists>msg. fst (ensure_server_running self_port w) = Inl (PyException msg)
    \<and> sublist (if err \<noteq> [] then err else out) msg"
proof (intro exI conjI)
  show "fst (ensure_server_running self_port w)
    = Inl (PyException ((''Failed to start server: '' @ ''Failed to start server: '')
             @ (if err \<noteq> [] then err else out)))"
    by (rule launcher_failure_raised[OF assms])
  show "sublist (if err \<noteq> [] then err else out)
     ((''Failed to start server: '' @ ''Failed to start server: '')
        @ (if err \<noteq> [] then err else out))"
    by (rule sublist_append_leftI)
qed

theorem launcher_failure_message_witness:
  "\<exists>msg. fst (ensure_server_running 3847 base_world) = Inl (PyException msg)
     \<and> sublist ''boom'' msg"
proof -
  have a: "is_server_alive base_world = (Inr False, base_world)"
    by (simp add: is_server_alive_def base_world_def)
  have f: "find_launcher base_world = Some ''/usr/local/bin/pmxt-ensure-server''"
    by (simp add: find_launcher_def base_world_def)
  have n: "''/usr/local/bin/pmxt-ensure-server'' \<noteq> []" by simp
  have r: "r_outcome (subprocess_run base_world
             (launcher_cmd base_world ''/usr/local/bin/pmxt-ensure-server''))
           = Completed 1 ''hello'' ''boom''"
    by (simp add: base_world_def)
  have z: "(1::int) \<noteq> 0" by simp
  from launcher_failure_message[OF a f n r z, of 3847] show ?thesis by simp
qed

text \<open>
  As stated (both streams in the message) the property fails: \<open>result.stderr or
  result.stdout\<close> takes stdout only when stderr is empty.  With stderr \<open>boom\<close> and stdout
  \<open>hello\<close> the launcher is run once, the call fails, and its message does not contain
  \<open>hello\<close>.
\<close>

theorem launcher_failure_counterexample:
  "r_outcome (subprocess_run base_world [''/usr/local/bin/pmxt-ensure-server''])
     = Completed 1 ''hello'' ''boom''
   \<and> launch_count (trace (snd (ensure_server_running 3847 base_world))) = 1
   \<and> (case fst (ensure_server_running 3847 base_world) of
         Inl (PyException msg) \<Rightarrow> str_in ''boom'' msg \<and> \<not> str_in ''hello'' msg
       | _ \<Rightarrow> False)"
  by code_simp

section \<open>C9: the accessors\<close>



section \<open>C10: the date constraint rejects undated markets\<close>

lemma market_passes_dated:
  "c_resolution_date p = Some f \<Longrightarrow> market_passes p m \<Longrightarrow> resolution_date m \<noteq> None"
  by (auto simp: market_passes_conj resolution_date_ok_def split: option.splits)

text \<open>
  C10.  For every list of markets and every criteria object with a \<open>resolution_date\<close> key
  (whatever bounds it holds), no market without a resolution date is in the result.
\<close>

theorem undated_excluded:
  assumes "c_resolution_date p = Some f"
  shows "\<forall>m \<in> set (filter_markets ms (Params p)). resolution_date m \<noteq> None"
  using assms by (auto simp: filter_markets_params dest: market_passes_dated)

theorem undated_excluded_witness:
  "c_resolution_date (empty_criteria\<lparr>c_resolution_date := Some \<lparr>before = None, after = None\<rparr>\<rparr>)
      = Some \<lparr>before = None, after = None\<rparr>
   \<and> list_all (\<lambda>m. resolution_date m \<noteq> None)
       (filter_markets (dated_market # scenario_markets)
          (Params (empty_criteria\<lparr>c_resolution_date := Some \<lparr>before = None, after = None\<rparr>\<rparr>)))
   \<and> filter_markets (dated_market # scenario_markets)
          (Params (empty_criteria\<lparr>c_resolution_date := Some \<lparr>before = None, after = None\<rparr>\<rparr>))
       = [dated_market]"
proof -
  have h: "c_resolution_date (empty_criteria\<lparr>c_resolution_date := Some \<lparr>before = None, after = None\<rparr>\<rparr>)
      = Some \<lparr>before = None, after = None\<rparr>"
    by simp
  have e: "filter_markets (dated_market # scenario_markets)
          (Params (empty_criteria\<lparr>c_resolution_date := Some \<lparr>before = None, after = None\<rparr>\<rparr>))
       = [dated_market]"
    by code_simp
  from undated_excluded[OF h, of "dated_market # scenario_markets"] h e
  show ?thesis by (simp add: list_all_iff)
qed

end
